theory Spec2Isabelle
  imports Complex_Main
begin

section \<open>Numbers, errors and tensors\<close>

text \<open>
  The entries of every array and tensor are modelled as real numbers: the arithmetic of
  \<^verbatim>\<open>core.py\<close> is read as exact arithmetic, not as rounded float32/float64 arithmetic.
  No entry is a NaN, so the test \<^verbatim>\<open>torch.sum(torch.isnan(obs))\<close> at the head of every
  \<^verbatim>\<open>_distribution\<close> is false and its \<^verbatim>\<open>print\<close> is never reached.
\<close>

datatype error = NotImplementedError | AttributeError | RuntimeError | ValueError | IndexError

section \<open>discount_cumsum\<close>





section \<open>mlp\<close>

text \<open>
  A layer size is a natural number. \<^verbatim>\<open>nn.Linear(i, o)\<close> holds a weight of shape \<open>(o, i)\<close> and
  a bias of shape \<open>(o)\<close>, kept here as functions of the row and column index that are read
  inside the shape only. Its constructor draws both from the random generator: the values
  drawn for the \<open>j\<close>-th layer of a network are the argument \<open>init j\<close> of the model.
\<close>

record linear =
  in_features :: nat
  out_features :: nat
  weight :: "nat \<Rightarrow> nat \<Rightarrow> real"
  bias :: "nat \<Rightarrow> real"

type_synonym initializer = "nat \<Rightarrow> (nat \<Rightarrow> nat \<Rightarrow> real) \<times> (nat \<Rightarrow> real)"

definition nn_Linear :: "(nat \<Rightarrow> nat \<Rightarrow> real) \<times> (nat \<Rightarrow> real) \<Rightarrow> nat \<Rightarrow> nat \<Rightarrow> linear" where
  "nn_Linear drawn n_in n_out =
     \<lparr>in_features = n_in, out_features = n_out, weight = fst drawn, bias = snd drawn\<rparr>"

text \<open>The activation modules that \<^verbatim>\<open>core.py\<close> names.\<close>

datatype activation = Identity | Tanh | ELU

datatype module = Linear linear | Act activation

text \<open>
  \<^verbatim>\<open>
  def mlp(sizes, activation, output_activation=nn.Identity):
      layers = []
      for j in range(len(sizes)-1):
          act = activation if j < len(sizes)-2 else output_activation
          layers += [nn.Linear(sizes[j], sizes[j+1]), act()]
      return nn.Sequential(*layers)
  \<close>
  An omitted \<^verbatim>\<open>output_activation\<close> is \<open>None\<close>; \<^verbatim>\<open>len(sizes)-1\<close> and \<^verbatim>\<open>len(sizes)-2\<close> are
  integers and may be negative.
\<close>

definition mlp_layer :: "initializer \<Rightarrow> nat list \<Rightarrow> activation \<Rightarrow> activation \<Rightarrow> nat \<Rightarrow> module list" where
  "mlp_layer init sizes activation output_activation j =
     (let act = (if int j < int (length sizes) - 2 then activation else output_activation)
      in [Linear (nn_Linear (init j) (sizes ! j) (sizes ! (j + 1))), Act act])"

definition mlp :: "initializer \<Rightarrow> nat list \<Rightarrow> activation \<Rightarrow> activation option \<Rightarrow> module list" where
  "mlp init sizes activation output_activation =
     fold (\<lambda>j layers. layers @
             mlp_layer init sizes activation
               (case output_activation of None \<Rightarrow> Identity | Some oa \<Rightarrow> oa) j)
          [0..<nat (int (length sizes) - 1)] []"

section \<open>Tensors\<close>

text \<open>
  A tensor is its shape and its entries in row-major order; a zero-dimensional tensor has
  shape \<open>[]\<close> and one entry. \<open>rows k t\<close> are the slices of \<open>t\<close> along its last axis, of
  length \<open>k\<close> each, one for every index of the leading axes.
\<close>

record tensor =
  shape :: "nat list"
  data :: "real list"

definition tmap :: "(real \<Rightarrow> real) \<Rightarrow> tensor \<Rightarrow> tensor" where
  "tmap f t = \<lparr>shape = shape t, data = map f (data t)\<rparr>"

definition rows :: "nat \<Rightarrow> tensor \<Rightarrow> real list list" where
  "rows k t = map (\<lambda>r. take k (drop (r * k) (data t))) [0..<prod_list (butlast (shape t))]"

text \<open>\<^verbatim>\<open>torch.clamp(a, min=lo, max=hi)\<close> is \<open>min(max(a, lo), hi)\<close> entry by entry.\<close>

definition clamp :: "tensor \<Rightarrow> real \<Rightarrow> real \<Rightarrow> tensor" where
  "clamp t lo hi = tmap (\<lambda>v. min (max v lo) hi) t"

text \<open>
  \<^verbatim>\<open>torch.squeeze(t, -1)\<close> drops the last axis when its size is 1 and returns \<open>t\<close> otherwise
  (also for a zero-dimensional \<open>t\<close>).
\<close>

definition squeeze_last :: "tensor \<Rightarrow> tensor" where
  "squeeze_last t =
     (if shape t \<noteq> [] \<and> last (shape t) = 1 then \<lparr>shape = butlast (shape t), data = data t\<rparr>
      else t)"

text \<open>\<^verbatim>\<open>t.sum(axis=-1)\<close>: the sum of every slice along the last axis.\<close>

definition sum_last :: "tensor \<Rightarrow> tensor" where
  "sum_last t =
     (if shape t = [] then t
      else \<lparr>shape = butlast (shape t), data = map sum_list (rows (last (shape t)) t)\<rparr>)"

text \<open>
  Broadcasting, as \<^verbatim>\<open>torch.broadcast_tensors\<close> does it: the shapes are aligned at their last
  axes, two sizes are compatible when they are equal or one of them is 1, and a tensor is
  repeated along every axis it lacks or has with size 1. \<open>bshape\<close> works on reversed
  shapes; \<open>expand src tgt d\<close> are the entries of a tensor of shape \<open>src\<close> and entries \<open>d\<close>
  expanded to shape \<open>tgt\<close>.
\<close>

fun bshape :: "nat list \<Rightarrow> nat list \<Rightarrow> nat list option" where
  "bshape [] ys = Some ys"
| "bshape (x # xs) [] = Some (x # xs)"
| "bshape (x # xs) (y # ys) =
     (if x = y \<or> y = 1 then map_option ((#) x) (bshape xs ys)
      else if x = 1 then map_option ((#) y) (bshape xs ys)
      else None)"

definition broadcast_shape :: "nat list \<Rightarrow> nat list \<Rightarrow> nat list option" where
  "broadcast_shape s1 s2 = map_option rev (bshape (rev s1) (rev s2))"

fun expand :: "nat list \<Rightarrow> nat list \<Rightarrow> real list \<Rightarrow> real list" where
  "expand src [] d = d"
| "expand src (n # tgt) d =
     (if length src \<le> length tgt then concat (replicate n (expand src tgt d))
      else if hd src = n then
        concat (map (\<lambda>i. expand (tl src) tgt
                            (take (prod_list (tl src)) (drop (i * prod_list (tl src)) d)))
                    [0..<n])
      else concat (replicate n (expand (tl src) tgt d)))"

definition expand_to :: "tensor \<Rightarrow> nat list \<Rightarrow> tensor" where
  "expand_to t s = (if shape t = s then t else \<lparr>shape = s, data = expand (shape t) s (data t)\<rparr>)"

definition broadcast_all :: "tensor \<Rightarrow> tensor \<Rightarrow> error + tensor \<times> tensor" where
  "broadcast_all a b =
     (case broadcast_shape (shape a) (shape b) of
        None \<Rightarrow> Inl RuntimeError
      | Some s \<Rightarrow> Inr (expand_to a s, expand_to b s))"

text \<open>\<^verbatim>\<open>a + b\<close> and \<^verbatim>\<open>a / b\<close> on tensors: broadcast, then entry by entry.\<close>

definition tbinop :: "(real \<Rightarrow> real \<Rightarrow> real) \<Rightarrow> tensor \<Rightarrow> tensor \<Rightarrow> error + tensor" where
  "tbinop f a b =
     (case broadcast_all a b of
        Inl e \<Rightarrow> Inl e
      | Inr (a', b') \<Rightarrow> Inr \<lparr>shape = shape a', data = map2 f (data a') (data b')\<rparr>)"

section \<open>Modules and their forward passes\<close>

text \<open>
  \<^verbatim>\<open>nn.Linear\<close> maps a tensor of shape \<open>(*, in_features)\<close> to one of shape
  \<open>(*, out_features)\<close>, \<open>y = x W\<^sup>T + b\<close> on every slice along the last axis, and raises a
  RuntimeError on any other shape.
\<close>

definition Linear_forward :: "linear \<Rightarrow> tensor \<Rightarrow> error + tensor" where
  "Linear_forward l x =
     (if shape x = [] \<or> last (shape x) \<noteq> in_features l then Inl RuntimeError
      else Inr \<lparr>shape = butlast (shape x) @ [out_features l],
                data = concat (map (\<lambda>row. map (\<lambda>i. (\<Sum>j\<leftarrow>[0..<in_features l]. row ! j * weight l i j)
                                                     + bias l i)
                                               [0..<out_features l])
                                   (rows (in_features l) x))\<rparr>)"

text \<open>\<^verbatim>\<open>nn.ELU()\<close> has \<open>alpha = 1\<close>: \<open>x\<close> for \<open>x > 0\<close> and \<open>exp(x) - 1\<close> otherwise.\<close>

definition elu :: "real \<Rightarrow> real" where
  "elu x = (if x > 0 then x else exp x - 1)"

fun activation_forward :: "activation \<Rightarrow> tensor \<Rightarrow> tensor" where
  "activation_forward Identity x = x"
| "activation_forward Tanh x = tmap tanh x"
| "activation_forward ELU x = tmap elu x"

fun module_forward :: "module \<Rightarrow> tensor \<Rightarrow> error + tensor" where
  "module_forward (Linear l) x = Linear_forward l x"
| "module_forward (Act a) x = Inr (activation_forward a x)"

text \<open>\<^verbatim>\<open>nn.Sequential\<close> feeds its input through its modules in order.\<close>

fun Sequential_forward :: "module list \<Rightarrow> tensor \<Rightarrow> error + tensor" where
  "Sequential_forward [] x = Inr x"
| "Sequential_forward (m # ms) x =
     (case module_forward m x of Inl e \<Rightarrow> Inl e | Inr y \<Rightarrow> Sequential_forward ms y)"

section \<open>Distributions\<close>

text \<open>
  A distribution object is the constructor that made it and the tensors it holds.
  \<^verbatim>\<open>Normal(loc, scale)\<close> and \<^verbatim>\<open>Beta(concentration1, concentration0)\<close> broadcast their two
  arguments to one shape and validate them: a scale or a concentration that is not
  strictly positive is a ValueError.

  The module \<^verbatim>\<open>distributions\<close> that \<^verbatim>\<open>core.py\<close> imports for \<^verbatim>\<open>SquashedDiagGaussianDistribution\<close>
  is not part of the source: the object that its \<^verbatim>\<open>proba_distribution(mu, log_std)\<close> returns
  is kept as the two arguments of that call.
\<close>

datatype distribution =
    Normal tensor tensor
  | Beta tensor tensor
  | SquashedDiagGaussian tensor tensor

definition torch_Normal :: "tensor \<Rightarrow> tensor \<Rightarrow> error + distribution" where
  "torch_Normal loc scale =
     (case broadcast_all loc scale of
        Inl e \<Rightarrow> Inl e
      | Inr (l, s) \<Rightarrow> if list_all (\<lambda>v. 0 < v) (data s) then Inr (Normal l s) else Inl ValueError)"

definition torch_Beta :: "tensor \<Rightarrow> tensor \<Rightarrow> error + distribution" where
  "torch_Beta concentration1 concentration0 =
     (case broadcast_all concentration1 concentration0 of
        Inl e \<Rightarrow> Inl e
      | Inr (c1, c0) \<Rightarrow>
          if list_all (\<lambda>v. 0 < v) (data c1) \<and> list_all (\<lambda>v. 0 < v) (data c0)
          then Inr (Beta c1 c0) else Inl ValueError)"

text \<open>
  What the libraries draw and what a density evaluates to is not defined in \<^verbatim>\<open>core.py\<close>;
  these operations are parameters of the model, over a generator state \<open>'g\<close>:
  \<^item> \<open>sample d g\<close>: the tensor that \<^verbatim>\<open>d.sample()\<close> returns in generator state \<open>g\<close>, and the
    state after it;
  \<^item> \<open>log_prob d a\<close>: what \<^verbatim>\<open>d.log_prob(a)\<close> returns or raises;
  \<^item> \<open>randn g\<close>: one standard normal draw, and the state after it.
\<close>

record 'g torch =
  sample :: "distribution \<Rightarrow> 'g \<Rightarrow> tensor \<times> 'g"
  log_prob :: "distribution \<Rightarrow> tensor \<Rightarrow> error + tensor"
  randn :: "'g \<Rightarrow> real \<times> 'g"

fun draws :: "('g \<Rightarrow> real \<times> 'g) \<Rightarrow> nat \<Rightarrow> 'g \<Rightarrow> real list \<times> 'g" where
  "draws rd 0 g = ([], g)"
| "draws rd (Suc n) g =
     (case rd g of (z, g1) \<Rightarrow> (case draws rd n g1 of (zs, g2) \<Rightarrow> (z # zs, g2)))"

text \<open>
  \<^verbatim>\<open>torch.normal(mean, std)\<close> with a tensor \<open>mean\<close> and a number \<open>std\<close>: a tensor of the shape
  of \<open>mean\<close> whose entries are \<open>mean[i] + std * z[i]\<close> for standard normal draws \<open>z[i]\<close>.
\<close>

definition torch_normal :: "'g torch \<Rightarrow> tensor \<Rightarrow> real \<Rightarrow> 'g \<Rightarrow> tensor \<times> 'g" where
  "torch_normal lib mean std g =
     (case draws (randn lib) (length (data mean)) g of
        (zs, g') \<Rightarrow> (\<lparr>shape = shape mean, data = map2 (\<lambda>m z. m + std * z) (data mean) zs\<rparr>, g'))"

section \<open>Actors\<close>

text \<open>
  The class \<^verbatim>\<open>Actor\<close> and its three subclasses. \<^verbatim>\<open>MLPGaussianActor\<close> and
  \<^verbatim>\<open>MLPGaussianSquashedActor\<close> hold \<^verbatim>\<open>log_std\<close> and \<^verbatim>\<open>mu_net\<close>, \<^verbatim>\<open>MLPBetaActor\<close> holds
  \<^verbatim>\<open>alpha_net\<close> and \<^verbatim>\<open>beta_net\<close>.
\<close>

record gaussian_actor =
  log_std :: tensor
  mu_net :: "module list"

record beta_actor =
  alpha_net :: "module list"
  beta_net :: "module list"

datatype actor =
    Actor
  | MLPGaussianActor gaussian_actor
  | MLPGaussianSquashedActor gaussian_actor
  | MLPBetaActor beta_actor


definition MLPGaussianSquashedActor_init :: "initializer \<Rightarrow> nat \<Rightarrow> nat \<Rightarrow> nat list \<Rightarrow> activation \<Rightarrow> gaussian_actor" where
  "MLPGaussianSquashedActor_init init obs_dim act_dim hidden_sizes activation =
     \<lparr>log_std = \<lparr>shape = [act_dim], data = map (\<lambda>one. - 0.5 * one) (replicate act_dim 1)\<rparr>,
      mu_net = mlp init ([obs_dim] @ hidden_sizes @ [act_dim]) activation None\<rparr>"

text \<open>
  \<^verbatim>\<open>
  self.alpha_net = mlp([obs_dim] + list(hidden_sizes) + [act_dim], activation, output_activation=lambda : nn.ELU())
  self.beta_net = mlp([obs_dim] + list(hidden_sizes) + [act_dim], activation, output_activation=lambda : nn.ELU())
  \<close>
\<close>

definition MLPBetaActor_init :: "initializer \<Rightarrow> initializer \<Rightarrow> nat \<Rightarrow> nat \<Rightarrow> nat list \<Rightarrow> activation \<Rightarrow> beta_actor" where
  "MLPBetaActor_init init_alpha init_beta obs_dim act_dim hidden_sizes activation =
     \<lparr>alpha_net = mlp init_alpha ([obs_dim] @ hidden_sizes @ [act_dim]) activation (Some ELU),
      beta_net = mlp init_beta ([obs_dim] @ hidden_sizes @ [act_dim]) activation (Some ELU)\<rparr>"

text \<open>
  \<^verbatim>\<open>
  mu = self.mu_net(obs)
  std = torch.exp(self.log_std)
  return Normal(mu, std)
  \<close>
\<close>

definition MLPGaussianActor_distribution :: "gaussian_actor \<Rightarrow> tensor \<Rightarrow> error + distribution" where
  "MLPGaussianActor_distribution self obs =
     (case Sequential_forward (mu_net self) obs of
        Inl e \<Rightarrow> Inl e
      | Inr mu \<Rightarrow> (let std = tmap exp (log_std self) in torch_Normal mu std))"

definition MLPGaussianSquashedActor_distribution :: "gaussian_actor \<Rightarrow> tensor \<Rightarrow> error + distribution" where
  "MLPGaussianSquashedActor_distribution self obs =
     (case Sequential_forward (mu_net self) obs of
        Inl e \<Rightarrow> Inl e
      | Inr mu \<Rightarrow> Inr (SquashedDiagGaussian mu (log_std self)))"

text \<open>
  \<^verbatim>\<open>
  alpha = self.alpha_net(obs) + 2
  beta = self.beta_net(obs) + 2
  return torch.distributions.Beta(alpha, beta)
  \<close>
\<close>

definition MLPBetaActor_distribution :: "beta_actor \<Rightarrow> tensor \<Rightarrow> error + distribution" where
  "MLPBetaActor_distribution self obs =
     (case Sequential_forward (alpha_net self) obs of
        Inl e \<Rightarrow> Inl e
      | Inr a \<Rightarrow>
          (let alpha = tmap (\<lambda>v. v + 2) a in
           case Sequential_forward (beta_net self) obs of
             Inl e \<Rightarrow> Inl e
           | Inr b \<Rightarrow> (let beta = tmap (\<lambda>v. v + 2) b in torch_Beta alpha beta)))"

text \<open>
  \<^verbatim>\<open>
  alpha = self.alpha_net(obs) + 2
  beta = self.beta_net(obs) + 2
  return alpha / (alpha + beta)
  \<close>
\<close>

definition MLPBetaActor_mean :: "beta_actor \<Rightarrow> tensor \<Rightarrow> error + tensor" where
  "MLPBetaActor_mean self obs =
     (case Sequential_forward (alpha_net self) obs of
        Inl e \<Rightarrow> Inl e
      | Inr a \<Rightarrow>
          (let alpha = tmap (\<lambda>v. v + 2) a in
           case Sequential_forward (beta_net self) obs of
             Inl e \<Rightarrow> Inl e
           | Inr b \<Rightarrow>
               (let beta = tmap (\<lambda>v. v + 2) b in
                case tbinop (+) alpha beta of
                  Inl e \<Rightarrow> Inl e
                | Inr denom \<Rightarrow> tbinop (/) alpha denom)))"

text \<open>
  The methods by class (the distribution \<^verbatim>\<open>pi\<close> of the source is \<open>pi'\<close> here). The base class raises NotImplementedError in \<^verbatim>\<open>_distribution\<close>
  and \<^verbatim>\<open>_log_prob_from_distribution\<close> and has no \<^verbatim>\<open>_mean\<close>; every subclass returns
  \<^verbatim>\<open>pi.log_prob(act).sum(axis=-1)\<close> from \<^verbatim>\<open>_log_prob_from_distribution\<close>.
\<close>

fun actor_distribution :: "actor \<Rightarrow> tensor \<Rightarrow> error + distribution" where
  "actor_distribution Actor obs = Inl NotImplementedError"
| "actor_distribution (MLPGaussianActor self) obs = MLPGaussianActor_distribution self obs"
| "actor_distribution (MLPGaussianSquashedActor self) obs = MLPGaussianSquashedActor_distribution self obs"
| "actor_distribution (MLPBetaActor self) obs = MLPBetaActor_distribution self obs"

fun actor_mean :: "actor \<Rightarrow> tensor \<Rightarrow> error + tensor" where
  "actor_mean Actor obs = Inl AttributeError"
| "actor_mean (MLPGaussianActor self) obs = Sequential_forward (mu_net self) obs"
| "actor_mean (MLPGaussianSquashedActor self) obs = Sequential_forward (mu_net self) obs"
| "actor_mean (MLPBetaActor self) obs = MLPBetaActor_mean self obs"

fun actor_log_prob_from_distribution :: "'g torch \<Rightarrow> actor \<Rightarrow> distribution \<Rightarrow> tensor \<Rightarrow> error + tensor" where
  "actor_log_prob_from_distribution lib Actor pi' act = Inl NotImplementedError"
| "actor_log_prob_from_distribution lib self pi' act =
     (case log_prob lib pi' act of Inl e \<Rightarrow> Inl e | Inr lp \<Rightarrow> Inr (sum_last lp))"

text \<open>
  \<^verbatim>\<open>
  def forward(self, obs, act=None):
      pi = self._distribution(obs)
      logp_a = None
      if act is not None:
          logp_a = self._log_prob_from_distribution(pi, act)
      return pi, logp_a
  \<close>
\<close>

definition Actor_forward :: "'g torch \<Rightarrow> actor \<Rightarrow> tensor \<Rightarrow> tensor option \<Rightarrow> error + distribution \<times> tensor option" where
  "Actor_forward lib self obs act =
     (case actor_distribution self obs of
        Inl e \<Rightarrow> Inl e
      | Inr pi' \<Rightarrow>
          (case act of
             None \<Rightarrow> Inr (pi', None)
           | Some a \<Rightarrow>
               (case actor_log_prob_from_distribution lib self pi' a of
                  Inl e \<Rightarrow> Inl e
                | Inr logp_a \<Rightarrow> Inr (pi', Some logp_a))))"

section \<open>Critic and actor-critic\<close>

record critic =
  v_net :: "module list"

definition MLPCritic_init :: "initializer \<Rightarrow> nat \<Rightarrow> nat list \<Rightarrow> activation \<Rightarrow> critic" where
  "MLPCritic_init init obs_dim hidden_sizes activation =
     \<lparr>v_net = mlp init ([obs_dim] @ hidden_sizes @ [1]) activation None\<rparr>"

text \<open>\<^verbatim>\<open>return torch.squeeze(self.v_net(obs), -1)\<close>\<close>

definition MLPCritic_forward :: "critic \<Rightarrow> tensor \<Rightarrow> error + tensor" where
  "MLPCritic_forward self obs =
     (case Sequential_forward (v_net self) obs of
        Inl e \<Rightarrow> Inl e
      | Inr y \<Rightarrow> Inr (squeeze_last y))"

text \<open>
  \<^verbatim>\<open>MLPActorCritic\<close> holds the actor \<^verbatim>\<open>pi\<close> and the critic \<^verbatim>\<open>v\<close>. Its constructor takes the two
  spaces (here: their shapes), reads \<^verbatim>\<open>shape[0]\<close> of each, which is an IndexError on an
  empty shape, and always builds an \<^verbatim>\<open>MLPBetaActor\<close>. An omitted \<^verbatim>\<open>hidden_sizes\<close> is
  \<open>(64, 64)\<close>, an omitted \<^verbatim>\<open>activation\<close> is \<^verbatim>\<open>nn.Tanh\<close>.
\<close>

record actor_critic =
  ac_pi :: actor
  ac_v :: critic


text \<open>
  What \<^verbatim>\<open>step\<close> can read and change: the module itself, the state of the random generator
  and the gradient mode that \<^verbatim>\<open>with torch.no_grad()\<close> switches off and restores.
\<close>

record 'g state =
  net :: actor_critic
  generator :: 'g
  grad_enabled :: bool

text \<open>
  \<^verbatim>\<open>step\<close> returns one array when \<^verbatim>\<open>eval\<close> is true and a 5-tuple otherwise; \<^verbatim>\<open>.numpy()\<close> keeps
  shape and entries.
\<close>

datatype step_result =
    Action tensor
  | Rollout tensor tensor tensor tensor tensor

text \<open>
  \<^verbatim>\<open>
  if eval:
      a = self.pi._mean(obs)
      a = torch.clamp(a, min=-1, max=1)
      return a.numpy()
  else:
      pi = self.pi._distribution(obs)
      a = pi.sample()
      a = torch.clamp(a, min=-1, max=1)
      logp_a = self.pi._log_prob_from_distribution(pi, a)
      mu = self.pi._mean(obs)
      v = self.v(obs)
      mu_bar = mu
      if std_mu > 0:
          mu_bar = self.pi._mean(torch.normal(obs, std_mu))
      return a.numpy(), v.numpy(), logp_a.numpy(), mu.numpy(), mu_bar.numpy()
  \<close>
\<close>

definition step_body :: "'g torch \<Rightarrow> tensor \<Rightarrow> bool \<Rightarrow> real \<Rightarrow> 'g state \<Rightarrow> (error + step_result) \<times> 'g state" where
  "step_body lib obs eval std_mu s =
     (if eval then
        (case actor_mean (ac_pi (net s)) obs of
           Inl e \<Rightarrow> (Inl e, s)
         | Inr a \<Rightarrow> (Inr (Action (clamp a (- 1) 1)), s))
      else
        (case actor_distribution (ac_pi (net s)) obs of
           Inl e \<Rightarrow> (Inl e, s)
         | Inr pi' \<Rightarrow>
             (case sample lib pi' (generator s) of
                (a0, g1) \<Rightarrow>
                  (let s1 = s\<lparr>generator := g1\<rparr>; a = clamp a0 (- 1) 1 in
                   case actor_log_prob_from_distribution lib (ac_pi (net s1)) pi' a of
                     Inl e \<Rightarrow> (Inl e, s1)
                   | Inr logp_a \<Rightarrow>
                       (case actor_mean (ac_pi (net s1)) obs of
                          Inl e \<Rightarrow> (Inl e, s1)
                        | Inr mu \<Rightarrow>
                            (case MLPCritic_forward (ac_v (net s1)) obs of
                               Inl e \<Rightarrow> (Inl e, s1)
                             | Inr v \<Rightarrow>
                                 if std_mu > 0 then
                                   (case torch_normal lib obs std_mu (generator s1) of
                                      (noisy, g2) \<Rightarrow>
                                        (let s2 = s1\<lparr>generator := g2\<rparr> in
                                         case actor_mean (ac_pi (net s2)) noisy of
                                           Inl e \<Rightarrow> (Inl e, s2)
                                         | Inr mu_bar \<Rightarrow> (Inr (Rollout a v logp_a mu mu_bar), s2)))
                                 else (Inr (Rollout a v logp_a mu mu), s1)))))))"

text \<open>
  \<^verbatim>\<open>def step(self, obs, eval=False, std_mu=-1.)\<close>: the body runs with the gradient mode off,
  and the mode it found is restored when the body returns or raises.
\<close>

definition step :: "'g torch \<Rightarrow> tensor \<Rightarrow> bool \<Rightarrow> real \<Rightarrow> 'g state \<Rightarrow> (error + step_result) \<times> 'g state" where
  "step lib obs eval std_mu s =
     (let prev = grad_enabled s in
      case step_body lib obs eval std_mu (s\<lparr>grad_enabled := False\<rparr>) of
        (r, s') \<Rightarrow> (r, s'\<lparr>grad_enabled := prev\<rparr>))"

text \<open>
  \<^verbatim>\<open>return self.step(obs)[0]\<close>: \<^verbatim>\<open>step\<close> with \<^verbatim>\<open>eval=False\<close> and \<^verbatim>\<open>std_mu=-1.\<close>, then the first
  component of the tuple. (Item 0 of the single array of the \<^verbatim>\<open>eval\<close> branch would be its
  first slice along the first axis.)
\<close>

definition first_item :: "tensor \<Rightarrow> error + tensor" where
  "first_item t =
     (case shape t of
        [] \<Rightarrow> Inl IndexError
      | n # rest \<Rightarrow> if n = 0 then Inl IndexError
                     else Inr \<lparr>shape = rest, data = take (prod_list rest) (data t)\<rparr>)"

definition act :: "'g torch \<Rightarrow> tensor \<Rightarrow> 'g state \<Rightarrow> (error + tensor) \<times> 'g state" where
  "act lib obs s =
     (case step lib obs False (- 1) s of
        (Inl e, s') \<Rightarrow> (Inl e, s')
      | (Inr (Rollout a v logp_a mu mu_bar), s') \<Rightarrow> (Inr a, s')
      | (Inr (Action a), s') \<Rightarrow> (first_item a, s'))"

section \<open>Concrete inputs\<close>

text \<open>The initializer that draws the same number for every weight and every bias.\<close>

definition const_init :: "real \<Rightarrow> initializer" where
  "const_init c j = (\<lambda>i k. c, \<lambda>i. c)"

text \<open>
  An actor-critic for observations of shape \<open>(2)\<close> and actions of shape \<open>(1)\<close>, with one
  hidden layer of 3 units and every weight and bias zero. Both of its concentration
  networks return \<open>ELU(0) = 0\<close>, so its policy is \<open>Beta(2, 2)\<close> for every observation.
  \<open>half_torch\<close> is a library for it: every draw of \<^verbatim>\<open>sample()\<close> is \<open>1/2\<close>, \<^verbatim>\<open>log_prob\<close> is the
  logarithm of the density \<open>6 x (1 - x)\<close> of \<open>Beta(2, 2)\<close>, every standard normal draw is 0, and
  the generator state counts the calls.
\<close>

definition half_torch :: "nat torch" where
  "half_torch =
     \<lparr>sample = (\<lambda>d g. (case d of
                           Normal loc scale \<Rightarrow> tmap (\<lambda>v. 1 / 2) loc
                         | Beta c1 c0 \<Rightarrow> tmap (\<lambda>v. 1 / 2) c1
                         | SquashedDiagGaussian m l \<Rightarrow> tmap (\<lambda>v. 1 / 2) m, g + 1)),
      log_prob = (\<lambda>d a. Inr (tmap (\<lambda>x. ln (6 * x * (1 - x))) a)),
      randn = (\<lambda>g. (0, g + 1))\<rparr>"

definition zero_beta_actor :: beta_actor where
  "zero_beta_actor = MLPBetaActor_init (const_init 0) (const_init 0) 2 1 [3] Tanh"

definition zero_critic :: critic where
  "zero_critic = MLPCritic_init (const_init 0) 2 [3] Tanh"

definition zero_actor_critic :: actor_critic where
  "zero_actor_critic = \<lparr>ac_pi = MLPBetaActor zero_beta_actor, ac_v = zero_critic\<rparr>"

definition obs12 :: tensor where
  "obs12 = \<lparr>shape = [2], data = [1, 2]\<rparr>"

section \<open>Properties of discount_cumsum\<close>













section \<open>Properties of mlp\<close>

lemma fold_append_upt:
  "fold (\<lambda>j layers. layers @ f j) [0..<n] acc = acc @ concat (map f [0..<n])"
  by (induction n) simp_all

lemma mlp_concat:
  "mlp init sizes activation output_activation =
     concat (map (mlp_layer init sizes activation
                    (case output_activation of None \<Rightarrow> Identity | Some oa \<Rightarrow> oa))
                 [0..<length sizes - 1])"
proof -
  have "nat (int (length sizes) - 1) = length sizes - 1" by simp
  then show ?thesis
    unfolding mlp_def by (simp add: fold_append_upt)
qed

lemma length_mlp_layer: "length (mlp_layer init sizes a oa j) = 2"
  by (simp add: mlp_layer_def Let_def)

lemma length_concat_pairs:
  "(\<And>j. length (f j) = 2) \<Longrightarrow> length (concat (map f [0..<n])) = 2 * n"
  by (induction n) simp_all

lemma nth_concat_pairs:
  assumes "\<And>j. length (f j) = 2" and "j < n"
  shows "concat (map f [0..<n]) ! (2 * j) = f j ! 0"
    and "concat (map f [0..<n]) ! (2 * j + 1) = f j ! 1"
  using assms(2)
proof (induction n)
  case 0
  { case 1 then show ?case by simp }
  { case 2 then show ?case by simp }
next
  case (Suc n)
  have len: "length (concat (map f [0..<n])) = 2 * n"
    using assms(1) by (rule length_concat_pairs)
  { case 1
    show ?case
    proof (cases "j < n")
      case True
      then show ?thesis using Suc.IH(1) len by (simp add: nth_append)
    next
      case False
      with 1 have "j = n" by simp
      then show ?thesis using len by (simp add: nth_append)
    qed }
  { case 2
    show ?case
    proof (cases "j < n")
      case True
      then show ?thesis using Suc.IH(2) len by (simp add: nth_append)
    next
      case False
      with 2 have "j = n" by simp
      then show ?thesis using len by (simp add: nth_append)
    qed }
qed

lemma length_mlp: "length (mlp init sizes activation output_activation) = 2 * (length sizes - 1)"
  by (simp add: mlp_concat length_concat_pairs length_mlp_layer)

lemma mlp_nth_linear:
  "j < length sizes - 1 \<Longrightarrow>
   mlp init sizes activation output_activation ! (2 * j) =
     Linear (nn_Linear (init j) (sizes ! j) (sizes ! (j + 1)))"
  by (simp add: mlp_concat nth_concat_pairs(1) length_mlp_layer) (simp add: mlp_layer_def Let_def)

lemma mlp_nth_act:
  "j < length sizes - 1 \<Longrightarrow>
   mlp init sizes activation output_activation ! (2 * j + 1) =
     Act (if j + 1 < length sizes - 1 then activation
          else (case output_activation of None \<Rightarrow> Identity | Some oa \<Rightarrow> oa))"
  by (simp add: mlp_concat nth_concat_pairs(2) length_mlp_layer del: One_nat_def)
     (auto simp add: mlp_layer_def Let_def)

text \<open>
  C7. For every size list with at least two entries, \<^verbatim>\<open>mlp(sizes, activation, output_activation)\<close>
  is a Sequential of exactly \<open>2 * (len(sizes) - 1)\<close> modules: module \<open>2j\<close> is
  \<^verbatim>\<open>Linear(sizes[j], sizes[j+1])\<close> and module \<open>2j+1\<close> is an activation, which is \<^verbatim>\<open>activation\<close>
  after every layer but the last and \<^verbatim>\<open>output_activation\<close> (Identity when omitted) after the
  last. For a size list with fewer than two entries the Sequential is empty.
\<close>

theorem mlp_spec:
  "(2 \<le> length sizes \<longrightarrow>
      length (mlp init sizes activation output_activation) = 2 * (length sizes - 1) \<and>
      (\<forall>j<length sizes - 1.
         mlp init sizes activation output_activation ! (2 * j) =
           Linear (nn_Linear (init j) (sizes ! j) (sizes ! (j + 1))) \<and>
         in_features (nn_Linear (init j) (sizes ! j) (sizes ! (j + 1))) = sizes ! j \<and>
         out_features (nn_Linear (init j) (sizes ! j) (sizes ! (j + 1))) = sizes ! (j + 1) \<and>
         mlp init sizes activation output_activation ! (2 * j + 1) =
           Act (if j + 1 < length sizes - 1 then activation
                else (case output_activation of None \<Rightarrow> Identity | Some oa \<Rightarrow> oa)))) \<and>
   (length sizes < 2 \<longrightarrow> mlp init sizes activation output_activation = [])"
proof (intro conjI impI allI)
  show "length (mlp init sizes activation output_activation) = 2 * (length sizes - 1)"
    by (rule length_mlp)
next
  assume "length sizes < 2"
  then have "length (mlp init sizes activation output_activation) = 0"
    by (simp add: length_mlp)
  then show "mlp init sizes activation output_activation = []" by simp
qed (simp_all only: mlp_nth_linear mlp_nth_act, simp_all add: nn_Linear_def)

theorem mlp_spec_witness:
  "length (mlp (const_init 0) [3, 4, 1] Tanh None) = 4 \<and>
   mlp (const_init 0) [3, 4, 1] Tanh None ! 0 = Linear (nn_Linear (const_init 0 0) 3 4) \<and>
   mlp (const_init 0) [3, 4, 1] Tanh None ! 1 = Act Tanh \<and>
   mlp (const_init 0) [3, 4, 1] Tanh None ! 2 = Linear (nn_Linear (const_init 0 1) 4 1) \<and>
   mlp (const_init 0) [3, 4, 1] Tanh None ! 3 = Act Identity \<and>
   mlp (const_init 0) [3] Tanh None = []"
proof -
  note t = mlp_spec [of "[3, 4, 1]" "const_init 0" Tanh None]
  have two: "2 \<le> length [3, 4, 1 :: nat]" by simp
  note layers = t [THEN conjunct1, rule_format, OF two, THEN conjunct2, rule_format]
  have len: "length (mlp (const_init 0) [3, 4, 1] Tanh None) = 4"
    using t [THEN conjunct1, rule_format, OF two, THEN conjunct1] by simp
  have l0: "mlp (const_init 0) [3, 4, 1] Tanh None ! 0 = Linear (nn_Linear (const_init 0 0) 3 4)"
    and a0: "mlp (const_init 0) [3, 4, 1] Tanh None ! 1 = Act Tanh"
    using layers [of 0] by simp_all
  have l1: "mlp (const_init 0) [3, 4, 1] Tanh None ! 2 = Linear (nn_Linear (const_init 0 1) 4 1)"
    and a1: "mlp (const_init 0) [3, 4, 1] Tanh None ! 3 = Act Identity"
    using layers [of 1] by (simp_all add: numeral_3_eq_3 numeral_2_eq_2)
  have short: "mlp (const_init 0) [3] Tanh None = []"
    using mlp_spec [of "[3]" "const_init 0" Tanh None] by simp
  from len l0 a0 l1 a1 short show ?thesis by blast
qed

section \<open>Shapes through the forward pass\<close>

lemma Sequential_forward_append:
  "Sequential_forward (ms @ ns) x =
     (case Sequential_forward ms x of Inl e \<Rightarrow> Inl e | Inr y \<Rightarrow> Sequential_forward ns y)"
  by (induction ms arbitrary: x) (simp_all split: sum.splits)

lemma shape_activation_forward [simp]: "shape (activation_forward a x) = shape x"
  by (cases a) (simp_all add: tmap_def)

lemma length_data_activation_forward [simp]:
  "length (data (activation_forward a x)) = length (data x)"
  by (cases a) (simp_all add: tmap_def)

lemma length_concat_const:
  "(\<And>r. r \<in> set rs \<Longrightarrow> length (f r) = k) \<Longrightarrow> length (concat (map f rs)) = length rs * k"
  by (induction rs) simp_all

lemma Linear_forward_ok:
  assumes "shape x \<noteq> []" and "last (shape x) = in_features l"
  shows "\<exists>y. Linear_forward l x = Inr y \<and> shape y = butlast (shape x) @ [out_features l] \<and>
             length (data y) = prod_list (shape y)"
proof -
  have "length (concat (map (\<lambda>row. map (\<lambda>i. (\<Sum>j\<leftarrow>[0..<in_features l]. row ! j * weight l i j) + bias l i)
                                 [0..<out_features l]) (rows (in_features l) x)))
        = length (rows (in_features l) x) * out_features l"
    by (rule length_concat_const) simp
  then show ?thesis using assms by (simp add: Linear_forward_def rows_def)
qed

lemma mlp_layer_forward:
  assumes "shape x \<noteq> []" and "last (shape x) = sizes ! j"
  shows "\<exists>z. Sequential_forward (mlp_layer init sizes a oa j) x =
               Inr (activation_forward (if int j < int (length sizes) - 2 then a else oa) z) \<and>
             Sequential_forward (butlast (mlp_layer init sizes a oa j)) x = Inr z \<and>
             shape z = butlast (shape x) @ [sizes ! (j + 1)] \<and>
             length (data z) = prod_list (shape z)"
proof -
  from assms have "last (shape x) = in_features (nn_Linear (init j) (sizes ! j) (sizes ! (j + 1)))"
    by (simp add: nn_Linear_def)
  from Linear_forward_ok [OF assms(1) this]
  obtain z where "Linear_forward (nn_Linear (init j) (sizes ! j) (sizes ! (j + 1))) x = Inr z"
    and "shape z = butlast (shape x) @ [sizes ! (j + 1)]" and "length (data z) = prod_list (shape z)"
    by (auto simp: nn_Linear_def)
  then show ?thesis by (intro exI [of _ z]) (simp add: mlp_layer_def Let_def)
qed

lemma mlp_prefix_forward:
  assumes "shape x \<noteq> []" and "last (shape x) = sizes ! 0"
  shows "\<exists>y. Sequential_forward (concat (map (mlp_layer init sizes a oa) [0..<m])) x = Inr y \<and>
             shape y = butlast (shape x) @ [sizes ! m]"
proof (induction m)
  case 0
  from assms have "butlast (shape x) @ [sizes ! 0] = shape x"
    by (metis append_butlast_last_id)
  then show ?case by simp
next
  case (Suc m)
  then obtain y where y: "Sequential_forward (concat (map (mlp_layer init sizes a oa) [0..<m])) x = Inr y"
    and sy: "shape y = butlast (shape x) @ [sizes ! m]" by blast
  from sy have "shape y \<noteq> []" and "last (shape y) = sizes ! m" by simp_all
  from mlp_layer_forward [OF this, of init a oa]
  obtain z where "Sequential_forward (mlp_layer init sizes a oa m) y =
                    Inr (activation_forward (if int m < int (length sizes) - 2 then a else oa) z)"
    and "shape z = butlast (shape y) @ [sizes ! (m + 1)]" by blast
  with y sy show ?case by (simp add: Sequential_forward_append)
qed

lemma mlp_forward:
  assumes "2 \<le> length sizes" and "shape x \<noteq> []" and "last (shape x) = hd sizes"
  shows "\<exists>z. Sequential_forward (mlp init sizes a output_activation) x =
               Inr (activation_forward (case output_activation of None \<Rightarrow> Identity | Some oa \<Rightarrow> oa) z) \<and>
             Sequential_forward (butlast (mlp init sizes a output_activation)) x = Inr z \<and>
             shape z = butlast (shape x) @ [last sizes] \<and>
             length (data z) = prod_list (shape z)"
proof -
  define oa where "oa = (case output_activation of None \<Rightarrow> Identity | Some oa \<Rightarrow> oa)"
  from assms(1) obtain m where m: "length sizes - 1 = Suc m" by (cases "length sizes - 1") auto
  from assms(1) have ne: "sizes \<noteq> []" by auto
  then have hd0: "hd sizes = sizes ! 0" by (simp add: hd_conv_nth)
  have lastm: "last sizes = sizes ! (m + 1)" using ne m by (simp add: last_conv_nth)
  have split: "mlp init sizes a output_activation =
                 concat (map (mlp_layer init sizes a oa) [0..<m]) @ mlp_layer init sizes a oa m"
    using m by (simp add: mlp_concat oa_def)
  from mlp_prefix_forward [OF assms(2), of sizes init a oa m] assms(3) hd0
  obtain y where y: "Sequential_forward (concat (map (mlp_layer init sizes a oa) [0..<m])) x = Inr y"
    and sy: "shape y = butlast (shape x) @ [sizes ! m]" by auto
  from sy have "shape y \<noteq> []" and "last (shape y) = sizes ! m" by simp_all
  from mlp_layer_forward [OF this, of init a oa]
  obtain z where z: "Sequential_forward (mlp_layer init sizes a oa m) y =
                    Inr (activation_forward (if int m < int (length sizes) - 2 then a else oa) z)"
    and bz: "Sequential_forward (butlast (mlp_layer init sizes a oa m)) y = Inr z"
    and sz: "shape z = butlast (shape y) @ [sizes ! (m + 1)]"
    and lz: "length (data z) = prod_list (shape z)" by blast
  from m have "\<not> int m < int (length sizes) - 2" by simp
  with z have "Sequential_forward (mlp_layer init sizes a oa m) y = Inr (activation_forward oa z)"
    by simp
  moreover have "mlp_layer init sizes a oa m \<noteq> []"
    by (simp add: mlp_layer_def Let_def)
  ultimately show ?thesis
    using y bz sy sz lz lastm
    unfolding split oa_def [symmetric]
    by (intro exI [of _ z]) (simp add: Sequential_forward_append butlast_append)
qed

section \<open>Properties of MLPCritic\<close>

lemma MLPCritic_forward_general:
  assumes "shape obs = s @ [obs_dim]"
  shows "\<exists>y. Sequential_forward (v_net (MLPCritic_init init obs_dim hidden_sizes activation)) obs = Inr y \<and>
             shape y = s @ [1] \<and> length (data y) = prod_list s \<and>
             MLPCritic_forward (MLPCritic_init init obs_dim hidden_sizes activation) obs =
               Inr \<lparr>shape = s, data = data y\<rparr>"
proof -
  have "2 \<le> length ([obs_dim] @ hidden_sizes @ [1])" by simp
  moreover from assms have "shape obs \<noteq> []" by simp
  moreover from assms have "last (shape obs) = hd ([obs_dim] @ hidden_sizes @ [1])" by simp
  ultimately obtain z where
    z: "Sequential_forward (mlp init ([obs_dim] @ hidden_sizes @ [1]) activation None) obs =
          Inr (activation_forward Identity z)"
    and sz: "shape z = butlast (shape obs) @ [last ([obs_dim] @ hidden_sizes @ [1])]"
    and lz: "length (data z) = prod_list (shape z)"
    using mlp_forward [of "[obs_dim] @ hidden_sizes @ [1]" obs init activation None] by auto
  from sz assms have sz': "shape z = s @ [1]" by simp
  with lz have lz': "length (data z) = prod_list s" by simp
  from z sz' lz' show ?thesis
    by (intro exI [of _ z]) (simp add: MLPCritic_init_def MLPCritic_forward_def squeeze_last_def)
qed

text \<open>
  C6. For every batch of observations of shape \<open>(n, obs_dim)\<close>, \<^verbatim>\<open>MLPCritic.forward\<close> returns
  the output of its \<^verbatim>\<open>v_net\<close>, of shape \<open>(n, 1)\<close>, with the trailing axis removed: a tensor
  of shape \<open>(n)\<close> with the same \<open>n\<close> entries. For a single observation of shape \<open>(obs_dim)\<close>
  the output of \<^verbatim>\<open>v_net\<close> has shape \<open>(1)\<close> and the result is zero-dimensional.
\<close>

theorem MLPCritic_forward_squeezes:
  "(shape obs = [n, obs_dim] \<longrightarrow>
      (\<exists>y. Sequential_forward (v_net (MLPCritic_init init obs_dim hidden_sizes activation)) obs = Inr y \<and>
           shape y = [n, 1] \<and> length (data y) = n \<and>
           MLPCritic_forward (MLPCritic_init init obs_dim hidden_sizes activation) obs =
             Inr \<lparr>shape = [n], data = data y\<rparr>)) \<and>
   (shape obs = [obs_dim] \<longrightarrow>
      (\<exists>y. Sequential_forward (v_net (MLPCritic_init init obs_dim hidden_sizes activation)) obs = Inr y \<and>
           shape y = [1] \<and> length (data y) = 1 \<and>
           MLPCritic_forward (MLPCritic_init init obs_dim hidden_sizes activation) obs =
             Inr \<lparr>shape = [], data = data y\<rparr>))"
  using MLPCritic_forward_general [of obs "[n]" obs_dim init hidden_sizes activation]
        MLPCritic_forward_general [of obs "[]" obs_dim init hidden_sizes activation]
  by simp

theorem MLPCritic_forward_squeezes_witness:
  "(\<exists>y. Sequential_forward (v_net (MLPCritic_init (const_init 0) 2 [3] Tanh))
           \<lparr>shape = [2, 2], data = [1, 2, 3, 4]\<rparr> = Inr y \<and>
        shape y = [2, 1] \<and> length (data y) = 2 \<and>
        MLPCritic_forward (MLPCritic_init (const_init 0) 2 [3] Tanh)
           \<lparr>shape = [2, 2], data = [1, 2, 3, 4]\<rparr> = Inr \<lparr>shape = [2], data = data y\<rparr>) \<and>
   (\<exists>y. Sequential_forward (v_net (MLPCritic_init (const_init 0) 2 [3] Tanh))
           \<lparr>shape = [2], data = [1, 2]\<rparr> = Inr y \<and>
        shape y = [1] \<and> length (data y) = 1 \<and>
        MLPCritic_forward (MLPCritic_init (const_init 0) 2 [3] Tanh)
           \<lparr>shape = [2], data = [1, 2]\<rparr> = Inr \<lparr>shape = [], data = data y\<rparr>)"
  using MLPCritic_forward_squeezes [of "\<lparr>shape = [2, 2], data = [1, 2, 3, 4]\<rparr>" 2 2 "const_init 0" "[3]" Tanh]
        MLPCritic_forward_squeezes [of "\<lparr>shape = [2], data = [1, 2]\<rparr>" 0 2 "const_init 0" "[3]" Tanh]
  by simp

section \<open>Properties of MLPBetaActor\<close>










section \<open>Properties of MLPGaussianActor\<close>











section \<open>The zero actor-critic, evaluated\<close>


lemma elu_0: "elu 0 = 0" by (simp add: elu_def)

lemma mlp3: "mlp init [a, b, c] actv oa = [Linear (nn_Linear (init 0) a b), Act actv, Linear (nn_Linear (init 1) b c), Act (case oa of None \<Rightarrow> Identity | Some x \<Rightarrow> x)]"
  by (simp add: mlp_def mlp_layer_def upt_rec numeral_2_eq_2)

lemma zero_net_forward:
  "Sequential_forward (mlp (const_init 0) [2, 3, Suc 0] Tanh oa) obs12 =
     Inr (activation_forward (case oa of None \<Rightarrow> Identity | Some x \<Rightarrow> x) \<lparr>shape = [1], data = [0]\<rparr>)"
  by (simp add: mlp3 Linear_forward_def nn_Linear_def const_init_def obs12_def rows_def tmap_def upt_rec numeral_2_eq_2 numeral_3_eq_3)

lemma zero_distribution:
  "MLPBetaActor_distribution zero_beta_actor obs12 =
     Inr (Beta \<lparr>shape = [1], data = [2]\<rparr> \<lparr>shape = [1], data = [2]\<rparr>)"
  by (simp add: zero_beta_actor_def MLPBetaActor_distribution_def MLPBetaActor_init_def zero_net_forward
        tmap_def elu_0 torch_Beta_def broadcast_all_def broadcast_shape_def expand_to_def Let_def)

lemma zero_mean:
  "MLPBetaActor_mean zero_beta_actor obs12 = Inr \<lparr>shape = [1], data = [1 / 2]\<rparr>"
  by (simp add: zero_beta_actor_def MLPBetaActor_mean_def MLPBetaActor_init_def zero_net_forward
        tmap_def elu_0 tbinop_def broadcast_all_def broadcast_shape_def expand_to_def Let_def)

lemma zero_value:
  "MLPCritic_forward zero_critic obs12 = Inr \<lparr>shape = [], data = [0]\<rparr>"
  by (simp add: zero_critic_def MLPCritic_forward_def MLPCritic_init_def zero_net_forward squeeze_last_def)

lemma zero_step:
  "step half_torch obs12 False (- 1) \<lparr>net = zero_actor_critic, generator = 0, grad_enabled = True\<rparr> =
     (Inr (Rollout \<lparr>shape = [1], data = [1 / 2]\<rparr> \<lparr>shape = [], data = [0]\<rparr>
             \<lparr>shape = [], data = [ln (3 / 2)]\<rparr> \<lparr>shape = [1], data = [1 / 2]\<rparr>
             \<lparr>shape = [1], data = [1 / 2]\<rparr>),
      \<lparr>net = zero_actor_critic, generator = 1, grad_enabled = True\<rparr>)"
  by (simp add: step_def step_body_def zero_actor_critic_def zero_distribution zero_mean zero_value
        half_torch_def tmap_def clamp_def sum_last_def rows_def Let_def)



section \<open>Properties of Actor.forward\<close>

text \<open>
  C4. For every actor and every observation for which the actor's \<^verbatim>\<open>_distribution\<close> returns a
  distribution \<open>pi\<close>, \<^verbatim>\<open>Actor.forward(obs, act)\<close> returns the pair \<open>(pi, logp_a)\<close>: without \<open>act\<close>
  the second component is \<open>None\<close>, and with \<open>act\<close> it is what the actor's
  \<^verbatim>\<open>_log_prob_from_distribution(pi, act)\<close> returns. Conversely, whenever \<^verbatim>\<open>forward\<close> returns a
  pair, its first component is the actor's distribution for \<open>obs\<close> and its second component
  is \<open>None\<close> exactly when \<open>act\<close> is \<open>None\<close>.
\<close>

theorem Actor_forward_spec:
  "(actor_distribution self obs = Inr pi' \<longrightarrow>
      Actor_forward lib self obs None = Inr (pi', None) \<and>
      (\<forall>a logp_a. actor_log_prob_from_distribution lib self pi' a = Inr logp_a \<longrightarrow>
         Actor_forward lib self obs (Some a) = Inr (pi', Some logp_a))) \<and>
   (Actor_forward lib self obs act' = Inr (p, l) \<longrightarrow>
      actor_distribution self obs = Inr p \<and>
      (l = None \<longleftrightarrow> act' = None) \<and>
      (\<forall>a. act' = Some a \<longrightarrow>
         (\<exists>logp_a. l = Some logp_a \<and> actor_log_prob_from_distribution lib self p a = Inr logp_a)))"
  by (auto simp: Actor_forward_def split: sum.splits option.splits)

theorem Actor_forward_spec_witness:
  "Actor_forward half_torch (MLPBetaActor zero_beta_actor) obs12 None =
     Inr (Beta \<lparr>shape = [1], data = [2]\<rparr> \<lparr>shape = [1], data = [2]\<rparr>, None) \<and>
   Actor_forward half_torch (MLPBetaActor zero_beta_actor) obs12 (Some \<lparr>shape = [1], data = [1 / 2]\<rparr>) =
     Inr (Beta \<lparr>shape = [1], data = [2]\<rparr> \<lparr>shape = [1], data = [2]\<rparr>,
          Some \<lparr>shape = [], data = [ln (3 / 2)]\<rparr>)"
proof -
  let ?pi = "Beta \<lparr>shape = [1], data = [2]\<rparr> \<lparr>shape = [1], data = [2]\<rparr>"
  have d: "actor_distribution (MLPBetaActor zero_beta_actor) obs12 = Inr ?pi"
    by (simp add: zero_distribution)
  have lp: "actor_log_prob_from_distribution half_torch (MLPBetaActor zero_beta_actor) ?pi
              \<lparr>shape = [1], data = [1 / 2]\<rparr> = Inr \<lparr>shape = [], data = [ln (3 / 2)]\<rparr>"
    by (simp add: half_torch_def tmap_def sum_last_def rows_def)
  note t = Actor_forward_spec [of "MLPBetaActor zero_beta_actor" obs12 ?pi half_torch,
             THEN conjunct1, rule_format, OF d]
  from t [THEN conjunct1] t [THEN conjunct2, rule_format, OF lp] show ?thesis by (rule conjI)
qed

section \<open>Properties of MLPActorCritic.step and act\<close>







lemma step_body_net: "net (snd (step_body lib obs eval std_mu s)) = net s"
  by (auto simp: step_body_def Let_def split: sum.splits prod.splits)

text \<open>
  C10. \<^verbatim>\<open>MLPActorCritic.step\<close> and \<^verbatim>\<open>MLPActorCritic.act\<close> leave the module, that is every
  parameter of the actor and of the critic, as they found it, for every observation and
  every setting of \<^verbatim>\<open>eval\<close> and \<^verbatim>\<open>std_mu\<close>, whether they return or raise; the gradient mode is
  restored as well. (The state of the random generator is what they change.)
\<close>

theorem step_preserves_parameters:
  "net (snd (step lib obs eval std_mu s)) = net s \<and>
   grad_enabled (snd (step lib obs eval std_mu s)) = grad_enabled s \<and>
   net (snd (act lib obs s)) = net s \<and>
   grad_enabled (snd (act lib obs s)) = grad_enabled s"
proof -
  have n: "net (snd (step lib obs eval std_mu s)) = net s" for eval std_mu
    using step_body_net [of lib obs eval std_mu "s\<lparr>grad_enabled := False\<rparr>"]
    by (auto simp: step_def split: prod.splits)
  have g: "grad_enabled (snd (step lib obs eval std_mu s)) = grad_enabled s" for eval std_mu
    by (simp add: step_def split: prod.splits)
  have a: "snd (act lib obs s) = snd (step lib obs False (- 1) s)"
    by (simp add: act_def split: prod.splits sum.splits step_result.splits)
  from n g a show ?thesis by simp
qed

theorem step_preserves_parameters_witness:
  "net (snd (step half_torch obs12 False (- 1) \<lparr>net = zero_actor_critic, generator = 0, grad_enabled = True\<rparr>)) =
     zero_actor_critic \<and>
   generator (snd (step half_torch obs12 False (- 1) \<lparr>net = zero_actor_critic, generator = 0, grad_enabled = True\<rparr>)) = 1 \<and>
   net (snd (act half_torch obs12 \<lparr>net = zero_actor_critic, generator = 0, grad_enabled = True\<rparr>)) =
     zero_actor_critic"
  using step_preserves_parameters
          [of half_torch obs12 False "- 1" "\<lparr>net = zero_actor_critic, generator = 0, grad_enabled = True\<rparr>"]
  by (simp add: zero_step)

section \<open>The rollout branch of MLPActorCritic.step\<close>





end
